theory Spec2Isabelle
  imports Main "HOL-Library.FSet" "HOL-Library.Multiset" "HOL-Library.Char_ord" "HOL-Library.List_Lexorder"
begin

section \<open>Strings and string sets\<close>

text \<open>
  A Go string is a sequence of bytes: \<^typ>\<open>string\<close>. Go compares strings byte by byte,
  a proper prefix being smaller; that is the lexicographic order of \<^typ>\<open>char list\<close>
  over the order of bytes.

  \<open>sets.String\<close> is a \<open>map[string]struct{}\<close>, a finite set of strings.
  \<open>Insert\<close> adds its arguments one by one and \<open>List\<close> returns the members sorted
  with \<open>sort.Strings\<close>.
\<close>

type_synonym String = "string fset"

definition NewString :: "String" where
  "NewString = {||}"

definition Insert :: "String \<Rightarrow> string list \<Rightarrow> String" where
  "Insert s items = fold finsert items s"

definition List :: "String \<Rightarrow> string list" where
  "List s = sorted_list_of_fset s"


section \<open>pkg/secrets/censor.go\<close>

subsection \<open>strings.TrimSpace\<close>

text \<open>
  \<open>strings.TrimSpace\<close> removes the leading and then the trailing white space, as
  \<open>unicode.IsSpace\<close> defines it, from a UTF-8 string. \<open>spaceRuneLen\<close> is the number
  of bytes of the white-space rune a byte sequence starts with, 0 if it starts with none:
  the ASCII characters tab, line feed, vertical tab, form feed, carriage return and space,
  and the UTF-8 encodings of U+0085, U+00A0, U+1680, U+2000 to U+200A, U+2028, U+2029,
  U+202F, U+205F and U+3000.
\<close>

definition spaceRune :: "nat list \<Rightarrow> nat" where
  "spaceRune bs =
     (case bs of
        [] \<Rightarrow> 0
      | b0 # r0 \<Rightarrow>
          if (9 \<le> b0 \<and> b0 \<le> 13) \<or> b0 = 32 then 1
          else (case r0 of
                  [] \<Rightarrow> 0
                | b1 # r1 \<Rightarrow>
                    if b0 = 0xC2 then (if b1 = 0x85 \<or> b1 = 0xA0 then 2 else 0)
                    else (case r1 of
                            [] \<Rightarrow> 0
                          | b2 # r2 \<Rightarrow>
                              if b0 = 0xE1 \<and> b1 = 0x9A \<and> b2 = 0x80 then 3
                              else if b0 = 0xE2 \<and> b1 = 0x80 \<and>
                                      ((0x80 \<le> b2 \<and> b2 \<le> 0x8A) \<or> b2 = 0xA8 \<or> b2 = 0xA9 \<or> b2 = 0xAF)
                                   then 3
                              else if b0 = 0xE2 \<and> b1 = 0x81 \<and> b2 = 0x9F then 3
                              else if b0 = 0xE3 \<and> b1 = 0x80 \<and> b2 = 0x80 then 3
                              else 0)))"

definition spaceRuneLen :: "string \<Rightarrow> nat" where
  "spaceRuneLen s = spaceRune (map of_char (take 3 s))"

text \<open>
  The last rune of a string is a white-space rune exactly when the string ends with the
  encoding of one: \<open>lastSpaceRuneLen\<close> is its number of bytes, 0 if there is none.
\<close>

definition lastSpaceRuneLen :: "string \<Rightarrow> nat" where
  "lastSpaceRuneLen s =
     (let n = length s in
      if 1 \<le> n \<and> spaceRuneLen (drop (n - 1) s) = 1 then 1
      else if 2 \<le> n \<and> spaceRuneLen (drop (n - 2) s) = 2 then 2
      else if 3 \<le> n \<and> spaceRuneLen (drop (n - 3) s) = 3 then 3
      else 0)"

function TrimLeftSpace :: "string \<Rightarrow> string" where
  "TrimLeftSpace s =
     (if s \<noteq> [] \<and> 0 < spaceRuneLen s then TrimLeftSpace (drop (spaceRuneLen s) s) else s)"
  by pat_completeness auto
termination
  by (relation "measure length") auto

function TrimRightSpace :: "string \<Rightarrow> string" where
  "TrimRightSpace s =
     (if s \<noteq> [] \<and> 0 < lastSpaceRuneLen s
      then TrimRightSpace (take (length s - lastSpaceRuneLen s) s) else s)"
  by pat_completeness auto
termination
  by (relation "measure length") auto

definition TrimSpace :: "string \<Rightarrow> string" where
  "TrimSpace s = TrimRightSpace (TrimLeftSpace s)"


subsection \<open>The censor\<close>

text \<open>
  \<open>secretutil.ReloadingCensorer\<close> comes from a library: \<open>Refresh\<close> replaces the
  secrets it censors and \<open>Censor\<close> masks them in a text. A censorer is modelled by the
  list of secrets it was last refreshed with, none for a new one. The function that masks
  a list of secrets in a text is the parameter \<open>replacer\<close> of \<open>Censor\<close> below; the
  library's own, \<open>secretutil\<close>, follows.
\<close>

record ReloadingCensorer =
  refreshed :: "string list"

definition NewCensorer :: "ReloadingCensorer" where
  "NewCensorer = \<lparr>refreshed = []\<rparr>"

definition Refresh :: "ReloadingCensorer \<Rightarrow> string list \<Rightarrow> ReloadingCensorer" where
  "Refresh c s = c\<lparr>refreshed := s\<rparr>"

definition Censor :: "(string list \<Rightarrow> string \<Rightarrow> string) \<Rightarrow> ReloadingCensorer \<Rightarrow> string \<Rightarrow> string" where
  "Censor replacer c input = replacer (refreshed c) input"

text \<open>
  \<open>DynamicCensor\<close> embeds the censorer and keeps the set of secrets. The lock makes
  each call atomic: a call is one step from a state to the next.
\<close>

record DynamicCensor =
  censorer :: "ReloadingCensorer"
  secrets :: "String"

definition NewDynamicCensor :: "DynamicCensor" where
  "NewDynamicCensor = \<lparr>censorer = NewCensorer, secrets = NewString\<rparr>"

definition AddSecrets :: "DynamicCensor \<Rightarrow> string list \<Rightarrow> DynamicCensor" where
  "AddSecrets c s =
     (let secrets' = Insert (secrets c) s
      in \<lparr>censorer = Refresh (censorer c) (List secrets'), secrets = secrets'\<rparr>)"

text \<open>\<open>Redact\<close> is the \<open>Censor\<close> method that \<open>DynamicCensor\<close> inherits from the censorer.\<close>

definition Redact :: "(string list \<Rightarrow> string \<Rightarrow> string) \<Rightarrow> DynamicCensor \<Rightarrow> string \<Rightarrow> string" where
  "Redact replacer c input = Censor replacer (censorer c) input"


subsection \<open>The censoring library\<close>

text \<open>
  What the library's censorer (\<open>k8s.io/test-infra/prow/secretutil\<close>) does with the
  secrets it is refreshed with. \<open>Refresh\<close> trims each secret with
  \<open>strings.TrimSpace\<close>, skips it if nothing is left, and hands the replacer
  (\<open>go4.org/bytereplacer\<close>) two pairs for it: the secret and its standard base64
  encoding, each to be replaced by as many asterisks as it has bytes.
\<close>

definition encodeStd :: string where
  "encodeStd = ''ABCDEFGHIJKLMNOPQRSTUVWXYZabcdefghijklmnopqrstuvwxyz0123456789+/''"

fun EncodeToString :: "string \<Rightarrow> string" where
  "EncodeToString [] = []"
| "EncodeToString [a] =
     (let x = of_char a :: nat
      in [encodeStd ! (x div 4), encodeStd ! ((x mod 4) * 16), CHR ''='', CHR ''=''])"
| "EncodeToString [a, b] =
     (let x = of_char a :: nat; y = of_char b :: nat
      in [encodeStd ! (x div 4), encodeStd ! ((x mod 4) * 16 + y div 16),
          encodeStd ! ((y mod 16) * 4), CHR ''=''])"
| "EncodeToString (a # b # c # rest) =
     (let x = of_char a :: nat; y = of_char b :: nat; z = of_char c :: nat
      in [encodeStd ! (x div 4), encodeStd ! ((x mod 4) * 16 + y div 16),
          encodeStd ! ((y mod 16) * 4 + z div 64), encodeStd ! (z mod 64)] @ EncodeToString rest)"

fun replacements :: "string list \<Rightarrow> (string \<times> string) list" where
  "replacements [] = []"
| "replacements (secret # rest) =
     (let secret' = TrimSpace secret
      in if secret' = [] then replacements rest
         else (secret', replicate (length secret') (CHR ''*'')) #
              (EncodeToString secret', replicate (length (EncodeToString secret')) (CHR ''*'')) #
              replacements rest)"

text \<open>
  \<open>Censor\<close> runs the replacer over the text. The replacer goes through the text from
  left to right: where old strings of its pairs start, it writes the new string of the
  first of them, in the order the pairs were given, and goes on behind that old string;
  where none starts, it keeps the byte. No old string is empty here.
\<close>

fun lookup :: "(string \<times> string) list \<Rightarrow> string \<Rightarrow> (string \<times> string) option" where
  "lookup [] s = None"
| "lookup ((old, new) # rest) s =
     (if old \<noteq> [] \<and> take (length old) s = old then Some (old, new) else lookup rest s)"

function Replace :: "(string \<times> string) list \<Rightarrow> string \<Rightarrow> string" where
  "Replace oldnew [] = []"
| "Replace oldnew (c # cs) =
     (case lookup oldnew (c # cs) of
        Some (old, new) \<Rightarrow> new @ Replace oldnew (drop (length old) (c # cs))
      | None \<Rightarrow> c # Replace oldnew cs)"
  by pat_completeness auto
termination
proof (relation "measure (\<lambda>(oldnew, s). length s)")
  show "wf (measure (\<lambda>(oldnew, s). length s))" by simp
next
  fix oldnew :: "(string \<times> string) list" and c cs x2 x y
  assume found: "lookup oldnew (c # cs) = Some x2" "(x, y) = x2"
  have "lookup pairs s = Some (x, y) \<Longrightarrow> x \<noteq> []" for pairs s
    by (induction pairs) (auto split: if_splits)
  with found have "x \<noteq> []" by simp
  then show "((oldnew, drop (length x) (c # cs)), (oldnew, c # cs)) \<in> measure (\<lambda>(oldnew, s). length s)"
    by (cases x) simp_all
next
  fix oldnew :: "(string \<times> string) list" and c cs
  show "((oldnew, cs), (oldnew, c # cs)) \<in> measure (\<lambda>(oldnew, s). length s)" by simp
qed

text \<open>The library as the replacer of \<open>Censor\<close>: what it makes of a text, for a list of secrets.\<close>

definition secretutil :: "string list \<Rightarrow> string \<Rightarrow> string" where
  "secretutil secrets' input = Replace (replacements secrets') input"

subsection \<open>The states of the censor\<close>

text \<open>
  The states of a censor that the package builds: a new censor, and every censor that
  \<open>AddSecrets\<close> leaves.
\<close>

inductive reachable :: "DynamicCensor \<Rightarrow> bool" where
  new: "reachable NewDynamicCensor"
| add: "reachable c \<Longrightarrow> reachable (AddSecrets c s)"

text \<open>
  The environment maps the names of the variables that are set to their values;
  \<open>os.Getenv\<close> returns the empty string for a variable that is not set.
\<close>

definition Getenv :: "(string \<rightharpoonup> string) \<Rightarrow> string \<Rightarrow> string" where
  "Getenv env name = (case env name of None \<Rightarrow> [] | Some v \<Rightarrow> v)"

definition ReadFromEnv :: "(string \<rightharpoonup> string) \<Rightarrow> string \<Rightarrow> DynamicCensor \<Rightarrow> string \<times> DynamicCensor" where
  "ReadFromEnv env name censor =
     (let ret = Getenv env name
      in if ret \<noteq> [] then (ret, AddSecrets censor [ret]) else (ret, censor))"

text \<open>
  The file system maps the paths of the readable files to their contents; \<open>os.ReadFile\<close>
  fails on any other path.
\<close>

datatype error = ReadFileError string

definition ReadFile :: "(string \<rightharpoonup> string) \<Rightarrow> string \<Rightarrow> error + string" where
  "ReadFile fs path = (case fs path of None \<Rightarrow> Inl (ReadFileError path) | Some bytes \<Rightarrow> Inr bytes)"

definition ReadFromFile :: "(string \<rightharpoonup> string) \<Rightarrow> string \<Rightarrow> DynamicCensor \<Rightarrow> (error + string) \<times> DynamicCensor" where
  "ReadFromFile fs path censor =
     (case ReadFile fs path of
        Inl err \<Rightarrow> (Inl err, censor)
      | Inr bytes \<Rightarrow>
          (let ret = TrimSpace bytes
           in (Inr ret, AddSecrets censor [ret])))"


subsection \<open>Notions for the statements on the censor\<close>





section \<open>The dashboard deriver\<close>

subsection \<open>TestGrid configuration\<close>

text \<open>
  The types of the TestGrid \<open>config\<close> package, with the fields the deriver sets.
  A field the deriver leaves at its zero value is not listed. A pointer is never nil here
  and no two of them alias: each is modelled by the value it points to. The field
  \<open>Name\<close> of a tab, a test group, a dashboard and a dashboard group is \<open>tab_Name\<close>,
  \<open>tg_Name\<close>, \<open>dash_Name\<close> and \<open>dg_Name\<close>.
\<close>

record LinkOptionsTemplate =
  Key :: string
  Value :: string

record LinkTemplate =
  Url :: string
  Options :: "LinkOptionsTemplate list"

record DashboardTab =
  tab_Name :: string
  TestGroupName :: string
  BaseOptions :: string
  OpenTestTemplate :: LinkTemplate
  FileBugTemplate :: LinkTemplate
  OpenBugTemplate :: LinkTemplate
  ResultsUrlTemplate :: LinkTemplate
  CodeSearchPath :: string
  CodeSearchUrlTemplate :: LinkTemplate

record TestGroup =
  tg_Name :: string
  GcsPrefix :: string

record Dashboard =
  dash_Name :: string
  DashboardTab :: "DashboardTab list"

text \<open>
  A dashboard group of the group index has a name, a list of dashboard names and whatever
  other fields its type declares: the extension of the record.
\<close>

record DashboardGroup =
  dg_Name :: string
  DashboardNames :: "string list"

text \<open>
  A configuration document. The deriver builds documents of test groups and dashboards of
  the types above; of the group index it reads the dashboard groups only, so the types of
  the index's test groups and dashboards are parameters.
\<close>

record ('tg, 'd, 'g) Configuration =
  TestGroups :: "'tg list"
  Dashboards :: "'d list"
  DashboardGroups :: "'g list"

subsection \<open>Options\<close>

record options =
  releaseConfigDir :: string
  testGridConfigDir :: string

definition Validate :: "options \<Rightarrow> string option" where
  "Validate o' =
     (if releaseConfigDir o' = [] then Some ''--release-config is required''
      else if testGridConfigDir o' = [] then Some ''--testgrid-config is required''
      else None)"

subsection \<open>Dashboards\<close>

record dashboard =
  Dashboard :: Dashboard
  testGroups :: "TestGroup list"

definition dashboardFor :: "string \<Rightarrow> string \<Rightarrow> string \<Rightarrow> dashboard" where
  "dashboardFor product version role =
     \<lparr>Dashboard =
        \<lparr>dash_Name = ''redhat-openshift-'' @ product @ ''-release-'' @ version @ ''-'' @ role,
         DashboardTab = []\<rparr>,
      testGroups = []\<rparr>"

definition dashboardTabFor :: "string \<Rightarrow> DashboardTab" where
  "dashboardTabFor name =
     \<lparr>tab_Name = name,
      TestGroupName = name,
      BaseOptions = ''width=10'',
      OpenTestTemplate =
        \<lparr>Url = ''https://prow.svc.ci.openshift.org/view/gcs/<gcs_prefix>/<changelist>'', Options = []\<rparr>,
      FileBugTemplate =
        \<lparr>Url = ''https://github.com/openshift/origin/issues/new'',
         Options = [\<lparr>Key = ''title'', Value = ''E2E: <test-name>''\<rparr>,
                    \<lparr>Key = ''body'', Value = ''<test-url>''\<rparr>]\<rparr>,
      OpenBugTemplate = \<lparr>Url = ''https://github.com/openshift/origin/issues/'', Options = []\<rparr>,
      ResultsUrlTemplate =
        \<lparr>Url = ''https://prow.svc.ci.openshift.org/job-history/<gcs_prefix>'', Options = []\<rparr>,
      CodeSearchPath = ''https://github.com/openshift/origin/search'',
      CodeSearchUrlTemplate =
        \<lparr>Url = ''https://github.com/openshift/origin/compare/<start-custom-0>...<end-custom-0>'',
         Options = []\<rparr>\<rparr>"

definition testGroupFor :: "string \<Rightarrow> TestGroup" where
  "testGroupFor name = \<lparr>tg_Name = name, GcsPrefix = ''origin-ci-test/logs/'' @ name\<rparr>"

definition add :: "dashboard \<Rightarrow> string \<Rightarrow> dashboard" where
  "add d name =
     \<lparr>Dashboard = (Dashboard d)\<lparr>DashboardTab := DashboardTab (Dashboard d) @ [dashboardTabFor name]\<rparr>,
      testGroups = testGroups d @ [testGroupFor name]\<rparr>"

subsection \<open>Release descriptors\<close>

text \<open>
  The decoded release descriptor. \<open>Verify\<close> is a Go map, whose \<open>range\<close> loop visits
  the entries in an order of its own choosing: the list holds the entries in the order of
  that visit, each key once.
\<close>

record verifyJob =
  Optional :: bool
  ProwJob_Name :: string

record release =
  Publish_Mirror_ImageStreamRef_Name :: string
  Publish_Tag_TagRef_Name :: string
  Verify :: "(string \<times> verifyJob) list"

text \<open>The product and the version of a descriptor; \<open>None\<close> where the callback logs and returns.\<close>

definition productVersion :: "release \<Rightarrow> (string \<times> string) option" where
  "productVersion releaseConfig =
     (if Publish_Mirror_ImageStreamRef_Name releaseConfig \<noteq> []
      then Some (''okd'', Publish_Mirror_ImageStreamRef_Name releaseConfig)
      else if Publish_Tag_TagRef_Name releaseConfig \<noteq> []
      then Some (''ocp'', Publish_Tag_TagRef_Name releaseConfig)
      else None)"

text \<open>The loop over the verify map: the blocking and the informing dashboard after it.\<close>

fun rangeVerify :: "(string \<times> verifyJob) list \<Rightarrow> dashboard \<Rightarrow> dashboard \<Rightarrow> dashboard \<times> dashboard" where
  "rangeVerify [] blocking informing = (blocking, informing)"
| "rangeVerify ((key, job) # rest) blocking informing =
     (if ProwJob_Name job = ''release-openshift-origin-installer-e2e-aws-upgrade''
      then rangeVerify rest blocking informing
      else if Optional job
      then rangeVerify rest blocking (add informing (ProwJob_Name job))
      else rangeVerify rest (add blocking (ProwJob_Name job)) informing)"

text \<open>
  The blocking and the informing dashboard built for a descriptor of a known product and
  version, as they are after the loop.
\<close>

definition built :: "string \<Rightarrow> string \<Rightarrow> release \<Rightarrow> dashboard \<times> dashboard" where
  "built product version releaseConfig =
     rangeVerify (Verify releaseConfig)
       (dashboardFor product version ''blocking'')
       (dashboardFor product version ''informing'')"

text \<open>What the callback does with a decoded descriptor: the dashboards it appends.\<close>

definition appended :: "release \<Rightarrow> dashboard list" where
  "appended releaseConfig =
     (case productVersion releaseConfig of
        None \<Rightarrow> []
      | Some (product, version) \<Rightarrow>
          (case built product version releaseConfig of
             (blocking, informing) \<Rightarrow>
               (if 0 < length (testGroups blocking) then [blocking] else []) @
               (if 0 < length (testGroups informing) then [informing] else [])))"

subsection \<open>The walk\<close>

text \<open>
  \<open>filepath.Ext\<close>: the suffix of the path from the last dot of its last element, empty
  if that element has no dot. The elements of a path are separated by \<open>/\<close>.
\<close>

definition Ext :: "string \<Rightarrow> string" where
  "Ext path' =
     (let elem = takeWhile (\<lambda>c. c \<noteq> CHR ''/'') (rev path')
      in if CHR ''.'' \<in> set elem then rev (takeWhile (\<lambda>c. c \<noteq> CHR ''.'') elem @ ''.'') else [])"

text \<open>
  What \<open>filepath.Walk\<close> hands to the callback for one file, and what reading and decoding
  the file gives.
\<close>

datatype decoded = ReadFails | UnmarshalFails | Decoded release

record walked =
  wpath :: string
  werr :: bool
  IsDir :: bool
  wfile :: decoded

datatype fatal =
    InvalidOptions string
  | WalkError string
  | CouldNotReadRelease string
  | CouldNotUnmarshalRelease string
  | CouldNotReadGroupConfig
  | CouldNotUnmarshalGroupConfig
  | CouldNotWriteGroupConfig
  | CouldNotWriteConfig string

definition walkFunc :: "dashboard list \<Rightarrow> walked \<Rightarrow> fatal + dashboard list" where
  "walkFunc dashboards w =
     (if werr w then Inl (WalkError (wpath w))
      else if IsDir w \<or> Ext (wpath w) \<noteq> ''.json'' then Inr dashboards
      else (case wfile w of
              ReadFails \<Rightarrow> Inl (CouldNotReadRelease (wpath w))
            | UnmarshalFails \<Rightarrow> Inl (CouldNotUnmarshalRelease (wpath w))
            | Decoded releaseConfig \<Rightarrow> Inr (dashboards @ appended releaseConfig)))"

fun Walk :: "walked list \<Rightarrow> dashboard list \<Rightarrow> fatal + dashboard list" where
  "Walk [] dashboards = Inr dashboards"
| "Walk (w # ws) dashboards =
     (case walkFunc dashboards w of
        Inl err \<Rightarrow> Inl err
      | Inr dashboards' \<Rightarrow> Walk ws dashboards')"

subsection \<open>The group index\<close>

text \<open>The names of the dashboards, inserted one by one into a new set.\<close>

definition dashboardNamesOf :: "dashboard list \<Rightarrow> String" where
  "dashboardNamesOf dashboards =
     fold (\<lambda>dash dashboardNames. Insert dashboardNames [dash_Name (Dashboard dash)]) dashboards NewString"

text \<open>
  The loop over the dashboard groups of the index. The groups are pointers, so the
  assignment changes the group of the index; the set of names lives on from one group to
  the next.
\<close>

fun updateGroups :: "String \<Rightarrow> 'a DashboardGroup_scheme list \<Rightarrow> 'a DashboardGroup_scheme list" where
  "updateGroups dashboardNames [] = []"
| "updateGroups dashboardNames (dashGroup # rest) =
     (if dg_Name dashGroup = ''redhat''
      then (let dashboardNames' = Insert dashboardNames (DashboardNames dashGroup)
            in dashGroup\<lparr>DashboardNames := List dashboardNames'\<rparr> # updateGroups dashboardNames' rest)
      else dashGroup # updateGroups dashboardNames rest)"

subsection \<open>The dashboard documents\<close>

text \<open>
  \<open>sort.Slice\<close> with a comparison of names sorts by name. It is not stable, but two
  test groups, or two tabs, of the same name are equal here, so the sorted list is the
  same whatever the order \<open>sort.Slice\<close> leaves equal names in.
\<close>

definition sortSlice :: "('a \<Rightarrow> string) \<Rightarrow> 'a list \<Rightarrow> 'a list" where
  "sortSlice name xs = sort_key name xs"

definition partialConfigFor :: "dashboard \<Rightarrow> (TestGroup, Dashboard, DashboardGroup) Configuration" where
  "partialConfigFor dash =
     \<lparr>TestGroups = sortSlice tg_Name (testGroups dash),
      Dashboards =
        map (\<lambda>d. d\<lparr>DashboardTab := sortSlice tab_Name (DashboardTab d)\<rparr>)
          (sortSlice dash_Name [Dashboard dash]),
      DashboardGroups = []\<rparr>"

subsection \<open>main\<close>

text \<open>
  The world \<open>main\<close> runs in: what \<open>filepath.Walk\<close> visits from a root, in its
  order; what reading and decoding the group index gives; and which files can be written.
  A file is named by the directory and the file name that \<open>path.Join\<close> is given. The
  result of a run is the list of the files written, in the order of the writes, and the
  fatal error that ended the run, if any. Encoding a document does not fail.
\<close>

type_synonym joined = "string \<times> string"

datatype 'c groupRead = GroupReadFails | GroupUnmarshalFails | GroupDecoded 'c

datatype 'c document =
    GroupIndex 'c
  | DashboardConfig "(TestGroup, Dashboard, DashboardGroup) Configuration"

fun writeDashboards ::
  "(joined \<Rightarrow> bool) \<Rightarrow> string \<Rightarrow> dashboard list \<Rightarrow> (joined \<times> 'c document) list
     \<Rightarrow> (joined \<times> 'c document) list \<times> fatal option" where
  "writeDashboards writable dir [] files = (files, None)"
| "writeDashboards writable dir (dash # rest) files =
     (let partialConfig = partialConfigFor dash;
          file = (dir, dash_Name (Dashboard dash) @ ''.yaml'')
      in if \<not> writable file then (files, Some (CouldNotWriteConfig (dash_Name (Dashboard dash))))
         else writeDashboards writable dir rest (files @ [(file, DashboardConfig partialConfig)]))"

definition main ::
  "options \<Rightarrow> (string \<Rightarrow> walked list)
     \<Rightarrow> (joined \<Rightarrow> ('tg, 'd, 'a DashboardGroup_scheme, 'z) Configuration_scheme groupRead)
     \<Rightarrow> (joined \<Rightarrow> bool)
     \<Rightarrow> (joined \<times> ('tg, 'd, 'a DashboardGroup_scheme, 'z) Configuration_scheme document) list
           \<times> fatal option" where
  "main o' tree readGroups writable =
     (case Validate o' of
        Some msg \<Rightarrow> ([], Some (InvalidOptions msg))
      | None \<Rightarrow>
          (case Walk (tree (releaseConfigDir o')) [] of
             Inl err \<Rightarrow> ([], Some err)
           | Inr dashboards \<Rightarrow>
               (let dashboardNames = dashboardNamesOf dashboards;
                    groupFile = (testGridConfigDir o', ''groups.yaml'')
                in case readGroups groupFile of
                     GroupReadFails \<Rightarrow> ([], Some CouldNotReadGroupConfig)
                   | GroupUnmarshalFails \<Rightarrow> ([], Some CouldNotUnmarshalGroupConfig)
                   | GroupDecoded groups \<Rightarrow>
                       (let groups' = groups\<lparr>DashboardGroups :=
                                         updateGroups dashboardNames (DashboardGroups groups)\<rparr>
                        in if \<not> writable groupFile then ([], Some CouldNotWriteGroupConfig)
                           else writeDashboards writable (testGridConfigDir o') dashboards
                                  [(groupFile, GroupIndex groups')]))))"



subsection \<open>The bytes of the group index\<close>

text \<open>
  \<open>main\<close> reads the bytes of the group index, decodes them with \<open>yaml.Unmarshal\<close>,
  changes the decoded index in the loop over its groups and writes the bytes that
  \<open>yaml.Marshal\<close> makes of it. The two functions are the YAML library's: parameters.
  The bytes written depend on the bytes read through the decoded index only.
\<close>

definition rewriteGroups ::
  "(string \<Rightarrow> ('tg, 'd, 'a DashboardGroup_scheme, 'z) Configuration_scheme option)
     \<Rightarrow> (('tg, 'd, 'a DashboardGroup_scheme, 'z) Configuration_scheme \<Rightarrow> string)
     \<Rightarrow> dashboard list \<Rightarrow> string \<Rightarrow> string option" where
  "rewriteGroups Unmarshal Marshal dashboards data =
     (case Unmarshal data of
        None \<Rightarrow> None
      | Some groups \<Rightarrow>
          Some (Marshal (groups\<lparr>DashboardGroups :=
                  updateGroups (dashboardNamesOf dashboards) (DashboardGroups groups)\<rparr>)))"

subsection \<open>Notions for the statements\<close>

text \<open>The one job name that the loop over the verify map skips.\<close>

abbreviation excludedJob :: string where
  "excludedJob \<equiv> ''release-openshift-origin-installer-e2e-aws-upgrade''"

text \<open>
  The job names of the verify entries that the loop routes to the informing dashboard
  (\<open>optional = True\<close>) or to the blocking one (\<open>optional = False\<close>), in the order of
  the visit.
\<close>

definition routed :: "bool \<Rightarrow> (string \<times> verifyJob) list \<Rightarrow> string list" where
  "routed optional jobs =
     map (\<lambda>(key, job). ProwJob_Name job)
       (filter (\<lambda>(key, job). ProwJob_Name job \<noteq> excludedJob \<and> Optional job = optional) jobs)"

text \<open>The names of the test groups and of the tabs of a dashboard.\<close>

definition groupNames :: "dashboard \<Rightarrow> string list" where
  "groupNames d = map tg_Name (testGroups d)"

definition tabNames :: "dashboard \<Rightarrow> string list" where
  "tabNames d = map tab_Name (DashboardTab (Dashboard d))"


text \<open>The descriptors that the walk decodes: those of the \<open>.json\<close> files, in order.\<close>

definition descriptors :: "walked list \<Rightarrow> release list" where
  "descriptors ws =
     concat (map (\<lambda>w. case wfile w of Decoded r \<Rightarrow> [r] | _ \<Rightarrow> [])
               (filter (\<lambda>w. \<not> IsDir w \<and> Ext (wpath w) = ''.json'') ws))"

subsection \<open>Example inputs\<close>

definition example_okd :: release where
  "example_okd =
     \<lparr>Publish_Mirror_ImageStreamRef_Name = ''4.2'',
      Publish_Tag_TagRef_Name = ''4.2.0'',
      Verify =
        [(''upgrade'', \<lparr>Optional = False, ProwJob_Name = excludedJob\<rparr>),
         (''aws'', \<lparr>Optional = False, ProwJob_Name = ''e2e-aws''\<rparr>),
         (''aws-optional'', \<lparr>Optional = True, ProwJob_Name = ''e2e-aws''\<rparr>),
         (''gcp'', \<lparr>Optional = True, ProwJob_Name = ''e2e-gcp''\<rparr>)]\<rparr>"

definition example_ocp :: release where
  "example_ocp =
     \<lparr>Publish_Mirror_ImageStreamRef_Name = [],
      Publish_Tag_TagRef_Name = ''4.3'',
      Verify =
        [(''metal'', \<lparr>Optional = False, ProwJob_Name = ''e2e-metal''\<rparr>),
         (''azure'', \<lparr>Optional = False, ProwJob_Name = ''e2e-azure''\<rparr>)]\<rparr>"

definition example_options :: options where
  "example_options = \<lparr>releaseConfigDir = ''releases'', testGridConfigDir = ''testgrid''\<rparr>"

definition example_tree :: "string \<Rightarrow> walked list" where
  "example_tree root =
     [\<lparr>wpath = root, werr = False, IsDir = True, wfile = ReadFails\<rparr>,
      \<lparr>wpath = root @ ''/README.md'', werr = False, IsDir = False, wfile = UnmarshalFails\<rparr>,
      \<lparr>wpath = root @ ''/okd-4.2.json'', werr = False, IsDir = False, wfile = Decoded example_okd\<rparr>,
      \<lparr>wpath = root @ ''/ocp-4.3.json'', werr = False, IsDir = False, wfile = Decoded example_ocp\<rparr>]"

definition example_groups :: "(unit, unit, DashboardGroup) Configuration" where
  "example_groups =
     \<lparr>TestGroups = [], Dashboards = [],
      DashboardGroups =
        [\<lparr>dg_Name = ''upstream'', DashboardNames = [''zeta'', ''alpha'', ''zeta'']\<rparr>,
         \<lparr>dg_Name = ''redhat'',
            DashboardNames = [''redhat-openshift-release-4.1-informing'',
                              ''redhat-openshift-ocp-release-4.3-blocking'']\<rparr>]\<rparr>"

text \<open>The group index that a run on these inputs writes.\<close>

definition example_index :: "(unit, unit, DashboardGroup) Configuration" where
  "example_index =
     example_groups\<lparr>DashboardGroups :=
       [\<lparr>dg_Name = ''upstream'', DashboardNames = [''zeta'', ''alpha'', ''zeta'']\<rparr>,
        \<lparr>dg_Name = ''redhat'',
           DashboardNames =
             [''redhat-openshift-ocp-release-4.3-blocking'', ''redhat-openshift-okd-release-4.2-blocking'',
              ''redhat-openshift-okd-release-4.2-informing'', ''redhat-openshift-release-4.1-informing'']\<rparr>]\<rparr>"


text \<open>
  Two files of a group index that differ in a comment, and the index both are decoded to.
\<close>

definition example_upstream :: "(unit, unit, DashboardGroup) Configuration" where
  "example_upstream =
     \<lparr>TestGroups = [], Dashboards = [],
      DashboardGroups = [\<lparr>dg_Name = ''upstream'', DashboardNames = [''zeta'']\<rparr>]\<rparr>"

definition example_file :: string where
  "example_file =
     ''dashboard_groups:\<newline>- name: upstream\<newline>  dashboard_names:\<newline>  - zeta\<newline>''"

definition example_file_comment :: string where
  "example_file_comment =
     ''dashboard_groups:\<newline>- name: upstream  # not ours\<newline>  dashboard_names:\<newline>  - zeta\<newline>''"


section \<open>Properties of the censor\<close>

lemma Insert_union: "Insert s items = s |\<union>| fset_of_list items"
  unfolding Insert_def by (induction items arbitrary: s) auto

lemma List_props: "sorted (List s)" "distinct (List s)" "set (List s) = fset s"
  by (simp_all add: List_def sorted_list_of_fset.rep_eq)

lemma secrets_AddSecrets: "secrets (AddSecrets c s) = secrets c |\<union>| fset_of_list s"
  by (simp add: AddSecrets_def Insert_union Let_def)

lemma refreshed_AddSecrets: "refreshed (censorer (AddSecrets c s)) = List (secrets (AddSecrets c s))"
  by (simp add: AddSecrets_def Refresh_def Let_def)



lemma NewDynamicCensor_sync: "refreshed (censorer NewDynamicCensor) = List (secrets NewDynamicCensor)"
  by (simp add: NewDynamicCensor_def NewCensorer_def NewString_def List_def sorted_list_of_fset.rep_eq)

lemma reachable_sync: "reachable c \<Longrightarrow> refreshed (censorer c) = List (secrets c)"
  by (induction rule: reachable.induct) (simp_all add: NewDynamicCensor_sync refreshed_AddSecrets)

text \<open>The ingestion helpers change the censor through \<open>AddSecrets\<close> only.\<close>

lemma reachable_ReadFromEnv: "reachable c \<Longrightarrow> reachable (snd (ReadFromEnv env name c))"
  by (simp add: ReadFromEnv_def Let_def reachable.add)

lemma reachable_ReadFromFile: "reachable c \<Longrightarrow> reachable (snd (ReadFromFile fs path' c))"
  by (simp add: ReadFromFile_def Let_def reachable.add split: sum.splits)

subsection \<open>Empty values\<close>

text \<open>
  \<open>ReadFromEnv\<close> does not register an empty value: a variable that is unset or empty
  leaves the censor as it is, and no call adds the empty string to the set.
\<close>

lemma ReadFromEnv_empty:
  "Getenv env name = [] \<Longrightarrow> ReadFromEnv env name censor = ([], censor)"
  by (simp add: ReadFromEnv_def)

lemma ReadFromEnv_no_empty_secret:
  "[] |\<notin>| secrets censor \<Longrightarrow> [] |\<notin>| secrets (snd (ReadFromEnv env name censor))"
  by (simp add: ReadFromEnv_def Let_def secrets_AddSecrets)

text \<open>
  \<open>ReadFromFile\<close> has no such test: a readable file whose trimmed content is empty puts
  the empty string into the set.
\<close>

lemma ReadFromFile_empty_secret:
  "fs path' = Some bytes \<Longrightarrow> TrimSpace bytes = [] \<Longrightarrow>
   [] |\<in>| secrets (snd (ReadFromFile fs path' censor))"
  by (simp add: ReadFromFile_def ReadFile_def Let_def secrets_AddSecrets)

text \<open>
  Claim C2: an ingestion helper whose value is the empty string does not add the empty
  string to the secret set. This holds for \<open>ReadFromEnv\<close> and fails for
  \<open>ReadFromFile\<close>: reading a file that holds a space and a line feed into a new censor
  returns the empty string, leaves the empty string in the secret set and refreshes the
  censorer with it.
\<close>

theorem ReadFromFile_registers_empty_string:
  "ReadFromFile [''token'' \<mapsto> '' \<newline>''] ''token'' NewDynamicCensor =
     (Inr [], \<lparr>censorer = \<lparr>refreshed = [[]]\<rparr>, secrets = {|[]|}\<rparr>)"
  by (simp add: ReadFromFile_def ReadFile_def TrimSpace_def spaceRuneLen_def spaceRune_def
      lastSpaceRuneLen_def AddSecrets_def Insert_def List_def Refresh_def NewDynamicCensor_def
      NewCensorer_def NewString_def sorted_list_of_fset.rep_eq Let_def)

subsection \<open>The replacer of the library\<close>








lemma EncodeToString_nonempty: "s \<noteq> [] \<Longrightarrow> EncodeToString s \<noteq> []"
  by (induction s rule: EncodeToString.induct) (simp_all add: Let_def)









text \<open>The library skips an empty secret: refreshed with it alone, it masks nothing.\<close>

lemma Replace_Nil: "Replace [] input = input"
  by (induction input) simp_all

lemma secretutil_empty_secret: "secretutil [[]] input = input"
  by (simp add: secretutil_def TrimSpace_def Replace_Nil)

subsection \<open>The redactor follows the set\<close>




subsection \<open>Adding a secret twice\<close>

text \<open>
  Claim C10: \<open>AddSecrets\<close> is idempotent. In any state the package builds, a call of
  \<open>AddSecrets\<close> with strings that are all in the secret set already leaves the set as
  it was, and \<open>Redact\<close> gives the same result on every input before and after the call.
\<close>

theorem AddSecrets_idempotent:
  assumes "reachable c" and "set s \<subseteq> fset (secrets c)"
  shows "secrets (AddSecrets c s) = secrets c \<and>
         Redact replacer (AddSecrets c s) input = Redact replacer c input"
proof -
  have "fset_of_list s |\<subseteq>| secrets c"
    using assms(2) by (simp add: less_eq_fset.rep_eq fset_of_list.rep_eq)
  then have same: "secrets (AddSecrets c s) = secrets c"
    by (auto simp: secrets_AddSecrets)
  have "refreshed (censorer (AddSecrets c s)) = refreshed (censorer c)"
    using reachable_sync [OF assms(1)] by (simp add: refreshed_AddSecrets same)
  then show ?thesis
    using same by (simp add: Redact_def Censor_def)
qed

theorem AddSecrets_idempotent_witness:
  "reachable (AddSecrets NewDynamicCensor [''abc123'', ''hunter2'']) \<and>
   set [''abc123''] \<subseteq> fset (secrets (AddSecrets NewDynamicCensor [''abc123'', ''hunter2''])) \<and>
   secrets (AddSecrets (AddSecrets NewDynamicCensor [''abc123'', ''hunter2'']) [''abc123'']) =
     secrets (AddSecrets NewDynamicCensor [''abc123'', ''hunter2'']) \<and>
   (\<forall>replacer input.
      Redact replacer (AddSecrets (AddSecrets NewDynamicCensor [''abc123'', ''hunter2'']) [''abc123'']) input =
      Redact replacer (AddSecrets NewDynamicCensor [''abc123'', ''hunter2'']) input)"
proof -
  have r: "reachable (AddSecrets NewDynamicCensor [''abc123'', ''hunter2''])"
    by (rule reachable.add [OF reachable.new])
  have m: "set [''abc123''] \<subseteq> fset (secrets (AddSecrets NewDynamicCensor [''abc123'', ''hunter2'']))"
    by (simp add: AddSecrets_def Insert_def NewDynamicCensor_def NewString_def Let_def)
  show ?thesis
    using r m AddSecrets_idempotent [OF r m] by blast
qed


section \<open>Properties of the deriver\<close>

subsection \<open>The loop over the verify map\<close>

text \<open>
  The loop adds to the blocking dashboard the names routed to it, in order, and to the
  informing dashboard the names routed to that one; it changes nothing else.
\<close>

lemma foldl_add:
  "foldl add d names =
     \<lparr>Dashboard = (Dashboard d)\<lparr>DashboardTab := DashboardTab (Dashboard d) @ map dashboardTabFor names\<rparr>,
      testGroups = testGroups d @ map testGroupFor names\<rparr>"
  by (induction names arbitrary: d) (simp_all add: add_def)

lemma routed_Cons:
  "routed optional ((key, job) # rest) =
     (if ProwJob_Name job \<noteq> excludedJob \<and> Optional job = optional
      then ProwJob_Name job # routed optional rest else routed optional rest)"
  by (simp add: routed_def)

lemma routed_Nil: "routed optional [] = []"
  by (simp add: routed_def)

lemma foldl_add_Cons: "foldl add (add d name) names = foldl add d (name # names)"
  by simp

lemma rangeVerify_routed:
  "rangeVerify jobs blocking informing =
     (foldl add blocking (routed False jobs), foldl add informing (routed True jobs))"
proof (induction jobs blocking informing rule: rangeVerify.induct)
  case (1 blocking informing)
  show ?case by (simp add: routed_Nil)
next
  case (2 key job rest blocking informing)
  then show ?case
    by (simp only: rangeVerify.simps routed_Cons foldl_add_Cons split: if_splits) auto
qed

lemma set_routed:
  "set (routed optional jobs) =
     {ProwJob_Name job | key job. (key, job) \<in> set jobs \<and> ProwJob_Name job \<noteq> excludedJob \<and> Optional job = optional}"
  by (auto simp: routed_def)

lemma excluded_not_routed: "excludedJob \<notin> set (routed optional jobs)"
  by (auto simp: set_routed)

lemma built_blocking:
  "fst (built product version r) = foldl add (dashboardFor product version ''blocking'') (routed False (Verify r))"
  by (simp add: built_def rangeVerify_routed)

lemma built_informing:
  "snd (built product version r) = foldl add (dashboardFor product version ''informing'') (routed True (Verify r))"
  by (simp add: built_def rangeVerify_routed)

lemma testGroups_built:
  "testGroups (fst (built product version r)) = map testGroupFor (routed False (Verify r))"
  "testGroups (snd (built product version r)) = map testGroupFor (routed True (Verify r))"
  by (simp_all add: built_blocking built_informing foldl_add dashboardFor_def)

lemma groupNames_foldl_add: "groupNames (foldl add d names) = groupNames d @ names"
  by (simp add: foldl_add groupNames_def testGroupFor_def comp_def)

lemma tabNames_foldl_add: "tabNames (foldl add d names) = tabNames d @ names"
  by (simp add: foldl_add tabNames_def dashboardTabFor_def comp_def)

lemma dashboardFor_empty: "groupNames (dashboardFor product version role) = []"
  "tabNames (dashboardFor product version role) = []"
  by (simp_all add: dashboardFor_def groupNames_def tabNames_def)

lemma built_names:
  "groupNames (fst (built product version r)) = routed False (Verify r)"
  "tabNames (fst (built product version r)) = routed False (Verify r)"
  "groupNames (snd (built product version r)) = routed True (Verify r)"
  "tabNames (snd (built product version r)) = routed True (Verify r)"
  by (simp_all add: built_blocking built_informing groupNames_foldl_add tabNames_foldl_add dashboardFor_empty)

lemma dash_Name_foldl_add: "dash_Name (Dashboard (foldl add d names)) = dash_Name (Dashboard d)"
  by (simp add: foldl_add)

lemma built_dash_Name:
  "dash_Name (Dashboard (fst (built product version r))) =
     ''redhat-openshift-'' @ product @ ''-release-'' @ version @ ''-blocking''"
  "dash_Name (Dashboard (snd (built product version r))) =
     ''redhat-openshift-'' @ product @ ''-release-'' @ version @ ''-informing''"
  by (simp_all add: built_blocking built_informing dash_Name_foldl_add dashboardFor_def)

lemma built_fst_neq_snd: "fst (built product version r) \<noteq> snd (built product version r)"
proof
  assume "fst (built product version r) = snd (built product version r)"
  then have "dash_Name (Dashboard (fst (built product version r))) = dash_Name (Dashboard (snd (built product version r)))"
    by simp
  then show False
    by (simp add: built_dash_Name)
qed


subsection \<open>The walk\<close>

text \<open>
  A walk that does not fail appends, for each descriptor it decodes, the dashboards of
  that descriptor that have a test group.
\<close>

lemma appended_cases:
  "productVersion r = None \<Longrightarrow> appended r = []"
  "productVersion r = Some (product, version) \<Longrightarrow>
     appended r =
       (if testGroups (fst (built product version r)) \<noteq> [] then [fst (built product version r)] else []) @
       (if testGroups (snd (built product version r)) \<noteq> [] then [snd (built product version r)] else [])"
  by (simp_all add: appended_def split: prod.splits)

lemma appended_built:
  "d \<in> set (appended r) \<Longrightarrow>
   \<exists>product version. productVersion r = Some (product, version) \<and> testGroups d \<noteq> [] \<and>
      (d = fst (built product version r) \<or> d = snd (built product version r))"
  by (cases "productVersion r") (auto simp: appended_cases split: if_splits)

lemma walkFunc_Inr:
  "walkFunc dashboards w = Inr dashboards' \<Longrightarrow>
   dashboards' = dashboards @ concat (map appended (descriptors [w]))"
  by (auto simp: walkFunc_def descriptors_def split: if_splits decoded.splits)

lemma descriptors_Cons: "descriptors (w # ws) = descriptors [w] @ descriptors ws"
  by (simp add: descriptors_def)

lemma Walk_Inr:
  "Walk ws dashboards = Inr dashboards' \<Longrightarrow>
   dashboards' = dashboards @ concat (map appended (descriptors ws))"
proof (induction ws arbitrary: dashboards)
  case Nil
  then show ?case by (simp add: descriptors_def)
next
  case (Cons w ws)
  from Cons.prems obtain mid where w: "walkFunc dashboards w = Inr mid" and rest: "Walk ws mid = Inr dashboards'"
    by (auto split: sum.splits)
  from walkFunc_Inr [OF w] Cons.IH [OF rest] show ?case
    by (subst descriptors_Cons) simp
qed

lemma Walk_derived:
  assumes "Walk ws [] = Inr dashboards" and "d \<in> set dashboards"
  shows "\<exists>r product version. r \<in> set (descriptors ws) \<and> productVersion r = Some (product, version) \<and>
           testGroups d \<noteq> [] \<and> (d = fst (built product version r) \<or> d = snd (built product version r))"
proof -
  from Walk_Inr [OF assms(1)] assms(2) obtain r where "r \<in> set (descriptors ws)" "d \<in> set (appended r)"
    by auto
  with appended_built show ?thesis by blast
qed


subsection \<open>The files of a run\<close>

text \<open>
  A run writes the group index first and then one document for each dashboard of the
  walk, until a write fails. Every dashboard document is \<open>partialConfigFor\<close> of a
  dashboard that the loop over a verify map built and that has a test group.
\<close>

lemma writeDashboards_files:
  "set (fst (writeDashboards writable dir dashboards files)) \<subseteq>
     set files \<union> (\<lambda>dash. ((dir, dash_Name (Dashboard dash) @ ''.yaml''), DashboardConfig (partialConfigFor dash))) ` set dashboards"
proof (induction dashboards arbitrary: files)
  case Nil
  show ?case by simp
next
  case (Cons dash rest)
  show ?case
  proof (cases "writable (dir, dash_Name (Dashboard dash) @ ''.yaml'')")
    case False
    then show ?thesis by (auto simp: Let_def)
  next
    case True
    with Cons.IH [of "files @ [((dir, dash_Name (Dashboard dash) @ ''.yaml''), DashboardConfig (partialConfigFor dash))]"]
    show ?thesis by (auto simp: Let_def)
  qed
qed

lemma writeDashboards_all:
  "\<forall>dash \<in> set dashboards. writable (dir, dash_Name (Dashboard dash) @ ''.yaml'') \<Longrightarrow>
   writeDashboards writable dir dashboards files =
     (files @ map (\<lambda>dash. ((dir, dash_Name (Dashboard dash) @ ''.yaml''), DashboardConfig (partialConfigFor dash))) dashboards, None)"
  by (induction dashboards arbitrary: files) (auto simp: Let_def)

lemma writeDashboards_None:
  "snd (writeDashboards writable dir dashboards files) = None \<Longrightarrow>
   fst (writeDashboards writable dir dashboards files) =
     files @ map (\<lambda>dash. ((dir, dash_Name (Dashboard dash) @ ''.yaml''), DashboardConfig (partialConfigFor dash))) dashboards"
  by (induction dashboards arbitrary: files) (auto simp: Let_def split: if_splits)

lemma main_DashboardConfig:
  assumes "(file, DashboardConfig cfg) \<in> set (fst (main o' tree readGroups writable))"
  shows "\<exists>dashboards dash. Walk (tree (releaseConfigDir o')) [] = Inr dashboards \<and> dash \<in> set dashboards \<and>
           file = (testGridConfigDir o', dash_Name (Dashboard dash) @ ''.yaml'') \<and> cfg = partialConfigFor dash"
proof -
  from assms obtain dashboards and groups :: "('a, 'b, 'c DashboardGroup_scheme, 'd) Configuration_scheme"
    where w: "Walk (tree (releaseConfigDir o')) [] = Inr dashboards"
    and "(file, DashboardConfig cfg) \<in> set (fst (writeDashboards writable (testGridConfigDir o') dashboards
          [((testGridConfigDir o', ''groups.yaml''), GroupIndex groups)]))"
    by (auto simp: main_def Let_def split: option.splits sum.splits groupRead.splits if_splits)
  then show ?thesis
    by (auto simp: w dest!: subsetD [OF writeDashboards_files])
qed

lemma main_GroupIndex:
  assumes "(file, GroupIndex groups') \<in> set (fst (main o' tree readGroups writable))"
  shows "\<exists>dashboards groups. Walk (tree (releaseConfigDir o')) [] = Inr dashboards \<and>
           readGroups (testGridConfigDir o', ''groups.yaml'') = GroupDecoded groups \<and>
           file = (testGridConfigDir o', ''groups.yaml'') \<and>
           groups' = groups\<lparr>DashboardGroups := updateGroups (dashboardNamesOf dashboards) (DashboardGroups groups)\<rparr>"
proof -
  from assms obtain dashboards groups where w: "Walk (tree (releaseConfigDir o')) [] = Inr dashboards"
    and g: "readGroups (testGridConfigDir o', ''groups.yaml'') = GroupDecoded groups"
    and "(file, GroupIndex groups') \<in> set (fst (writeDashboards writable (testGridConfigDir o') dashboards
          [((testGridConfigDir o', ''groups.yaml''),
            GroupIndex (groups\<lparr>DashboardGroups := updateGroups (dashboardNamesOf dashboards) (DashboardGroups groups)\<rparr>))]))"
    by (auto simp: main_def Let_def split: option.splits sum.splits groupRead.splits if_splits)
  then show ?thesis
    by (auto simp: w g dest!: subsetD [OF writeDashboards_files])
qed

lemma main_success:
  assumes "Validate o' = None" and "Walk (tree (releaseConfigDir o')) [] = Inr dashboards"
    and "readGroups (testGridConfigDir o', ''groups.yaml'') = GroupDecoded groups"
    and "\<And>file. writable file"
  shows "main o' tree readGroups writable =
     (((testGridConfigDir o', ''groups.yaml''),
        GroupIndex (groups\<lparr>DashboardGroups := updateGroups (dashboardNamesOf dashboards) (DashboardGroups groups)\<rparr>)) #
      map (\<lambda>dash. ((testGridConfigDir o', dash_Name (Dashboard dash) @ ''.yaml''), DashboardConfig (partialConfigFor dash))) dashboards,
      None)"
  using assms by (simp add: main_def Let_def writeDashboards_all)

lemma main_None:
  assumes "snd (main o' tree readGroups writable) = None"
  shows "\<exists>groups. readGroups (testGridConfigDir o', ''groups.yaml'') = GroupDecoded groups \<and>
     Walk (tree (releaseConfigDir o')) [] = Inr (concat (map appended (descriptors (tree (releaseConfigDir o'))))) \<and>
     fst (main o' tree readGroups writable) =
       ((testGridConfigDir o', ''groups.yaml''),
        GroupIndex (groups\<lparr>DashboardGroups :=
          updateGroups (dashboardNamesOf (concat (map appended (descriptors (tree (releaseConfigDir o'))))))
            (DashboardGroups groups)\<rparr>)) #
       map (\<lambda>dash. ((testGridConfigDir o', dash_Name (Dashboard dash) @ ''.yaml''), DashboardConfig (partialConfigFor dash)))
         (concat (map appended (descriptors (tree (releaseConfigDir o')))))"
proof -
  from assms obtain dashboards groups where w: "Walk (tree (releaseConfigDir o')) [] = Inr dashboards"
    and g: "readGroups (testGridConfigDir o', ''groups.yaml'') = GroupDecoded groups"
    and m: "main o' tree readGroups writable =
          writeDashboards writable (testGridConfigDir o') dashboards
          [((testGridConfigDir o', ''groups.yaml''),
            GroupIndex (groups\<lparr>DashboardGroups := updateGroups (dashboardNamesOf dashboards) (DashboardGroups groups)\<rparr>))]"
    by (auto simp: main_def Let_def split: option.splits sum.splits groupRead.splits if_splits)
  from Walk_Inr [OF w] have d: "dashboards = concat (map appended (descriptors (tree (releaseConfigDir o'))))"
    by simp
  from assms have "snd (writeDashboards writable (testGridConfigDir o') dashboards
          [((testGridConfigDir o', ''groups.yaml''),
            GroupIndex (groups\<lparr>DashboardGroups := updateGroups (dashboardNamesOf dashboards) (DashboardGroups groups)\<rparr>))]) = None"
    by (simp add: m)
  from writeDashboards_None [OF this] w g show ?thesis
    by (simp add: m d)
qed

lemma partialConfigFor_TestGroups:
  "TestGroups (partialConfigFor dash) = sort_key tg_Name (testGroups dash)"
  by (simp add: partialConfigFor_def sortSlice_def)

lemma partialConfigFor_Dashboards:
  "Dashboards (partialConfigFor dash) =
     [(Dashboard dash)\<lparr>DashboardTab := sort_key tab_Name (DashboardTab (Dashboard dash))\<rparr>]"
  by (simp add: partialConfigFor_def sortSlice_def)

lemma partialConfigFor_foldl_add:
  "TestGroups (partialConfigFor (foldl add (dashboardFor product version role) names)) =
     sort_key tg_Name (map testGroupFor names)"
  "Dashboards (partialConfigFor (foldl add (dashboardFor product version role) names)) =
     [\<lparr>dash_Name = ''redhat-openshift-'' @ product @ ''-release-'' @ version @ ''-'' @ role,
       DashboardTab = sort_key tab_Name (map dashboardTabFor names)\<rparr>]"
  by (simp_all add: partialConfigFor_TestGroups partialConfigFor_Dashboards foldl_add dashboardFor_def)

lemma names_of_groups_tabs:
  "tg_Name ` set (map testGroupFor names) = set names"
  "tab_Name ` set (map dashboardTabFor names) = set names"
  "TestGroupName ` set (map dashboardTabFor names) = set names"
  by (auto simp: testGroupFor_def dashboardTabFor_def image_iff)

lemma main_DashboardConfig_built:
  assumes "(file, DashboardConfig cfg) \<in> set (fst (main o' tree readGroups writable))"
  shows "\<exists>r product version optional.
           r \<in> set (descriptors (tree (releaseConfigDir o'))) \<and>
           productVersion r = Some (product, version) \<and>
           routed optional (Verify r) \<noteq> [] \<and>
           cfg = partialConfigFor
                   (foldl add (dashboardFor product version (if optional then ''informing'' else ''blocking''))
                      (routed optional (Verify r)))"
proof -
  from main_DashboardConfig [OF assms] obtain dashboards dash
    where w: "Walk (tree (releaseConfigDir o')) [] = Inr dashboards" and d: "dash \<in> set dashboards"
      and cfg: "cfg = partialConfigFor dash"
    by blast
  from Walk_derived [OF w d] obtain r product version
    where r: "r \<in> set (descriptors (tree (releaseConfigDir o')))"
      and pv: "productVersion r = Some (product, version)"
      and ne: "testGroups dash \<noteq> []"
      and b: "dash = fst (built product version r) \<or> dash = snd (built product version r)"
    by blast
  from b show ?thesis
  proof
    assume "dash = fst (built product version r)"
    then have dash: "dash = foldl add (dashboardFor product version ''blocking'') (routed False (Verify r))"
      by (simp add: built_blocking)
    with ne have "routed False (Verify r) \<noteq> []"
      by (auto simp: foldl_add dashboardFor_def)
    with r pv cfg dash show ?thesis
      by (intro exI [of _ r] exI [of _ product] exI [of _ version] exI [of _ False]) simp
  next
    assume "dash = snd (built product version r)"
    then have dash: "dash = foldl add (dashboardFor product version ''informing'') (routed True (Verify r))"
      by (simp add: built_informing)
    with ne have "routed True (Verify r) \<noteq> []"
      by (auto simp: foldl_add dashboardFor_def)
    with r pv cfg dash show ?thesis
      by (intro exI [of _ r] exI [of _ product] exI [of _ version] exI [of _ True]) simp
  qed
qed


subsection \<open>The example run\<close>

text \<open>
  The run on the example inputs: a directory, a file that is not a descriptor, and two
  descriptors; an index of two groups; every file writable.
\<close>

lemma example_routed:
  "routed False (Verify example_okd) = [''e2e-aws'']"
  "routed True (Verify example_okd) = [''e2e-aws'', ''e2e-gcp'']"
  "routed False (Verify example_ocp) = [''e2e-metal'', ''e2e-azure'']"
  "routed True (Verify example_ocp) = []"
  by (simp_all add: routed_def example_okd_def example_ocp_def)

lemma example_productVersion:
  "productVersion example_okd = Some (''okd'', ''4.2'')"
  "productVersion example_ocp = Some (''ocp'', ''4.3'')"
  by (simp_all add: productVersion_def example_okd_def example_ocp_def)

lemma example_appended:
  "appended example_okd = [fst (built ''okd'' ''4.2'' example_okd), snd (built ''okd'' ''4.2'' example_okd)]"
  "appended example_ocp = [fst (built ''ocp'' ''4.3'' example_ocp)]"
  by (simp_all add: appended_cases(2) [OF example_productVersion(1)]
      appended_cases(2) [OF example_productVersion(2)] testGroups_built example_routed)

lemma example_Walk:
  "Walk (example_tree ''releases'') [] =
     Inr [fst (built ''okd'' ''4.2'' example_okd), snd (built ''okd'' ''4.2'' example_okd),
          fst (built ''ocp'' ''4.3'' example_ocp)]"
  by (simp add: example_tree_def walkFunc_def Ext_def example_appended)

lemma example_main:
  "main example_options example_tree (\<lambda>file. GroupDecoded example_groups) (\<lambda>file. True) =
     (((''testgrid'', ''groups.yaml''),
        GroupIndex (example_groups\<lparr>DashboardGroups :=
          updateGroups
            (dashboardNamesOf [fst (built ''okd'' ''4.2'' example_okd), snd (built ''okd'' ''4.2'' example_okd),
                               fst (built ''ocp'' ''4.3'' example_ocp)])
            (DashboardGroups example_groups)\<rparr>)) #
      map (\<lambda>dash. ((''testgrid'', dash_Name (Dashboard dash) @ ''.yaml''), DashboardConfig (partialConfigFor dash)))
        [fst (built ''okd'' ''4.2'' example_okd), snd (built ''okd'' ''4.2'' example_okd),
         fst (built ''ocp'' ''4.3'' example_ocp)],
      None)"
proof -
  have v: "Validate example_options = None"
    by (simp add: Validate_def example_options_def)
  have w: "Walk (example_tree (releaseConfigDir example_options)) [] =
     Inr [fst (built ''okd'' ''4.2'' example_okd), snd (built ''okd'' ''4.2'' example_okd),
          fst (built ''ocp'' ''4.3'' example_ocp)]"
    using example_Walk by (simp add: example_options_def)
  have d: "testGridConfigDir example_options = ''testgrid''"
    by (simp add: example_options_def)
  show ?thesis
    using main_success [of example_options example_tree _ "\<lambda>file. GroupDecoded example_groups" example_groups "\<lambda>file. True", OF v w]
    by (simp add: d)
qed

lemma example_written:
  "((''testgrid'', ''redhat-openshift-okd-release-4.2-informing.yaml''),
    DashboardConfig (partialConfigFor (snd (built ''okd'' ''4.2'' example_okd))))
   \<in> set (fst (main example_options example_tree (\<lambda>file. GroupDecoded example_groups) (\<lambda>file. True)))"
  "((''testgrid'', ''redhat-openshift-okd-release-4.2-blocking.yaml''),
    DashboardConfig (partialConfigFor (fst (built ''okd'' ''4.2'' example_okd))))
   \<in> set (fst (main example_options example_tree (\<lambda>file. GroupDecoded example_groups) (\<lambda>file. True)))"
  "((''testgrid'', ''redhat-openshift-ocp-release-4.3-blocking.yaml''),
    DashboardConfig (partialConfigFor (fst (built ''ocp'' ''4.3'' example_ocp))))
   \<in> set (fst (main example_options example_tree (\<lambda>file. GroupDecoded example_groups) (\<lambda>file. True)))"
  by (simp_all add: example_main built_dash_Name)

lemma example_dashboardNames:
  "dashboardNamesOf [fst (built ''okd'' ''4.2'' example_okd), snd (built ''okd'' ''4.2'' example_okd),
                     fst (built ''ocp'' ''4.3'' example_ocp)] =
     {|''redhat-openshift-ocp-release-4.3-blocking'', ''redhat-openshift-okd-release-4.2-informing'',
       ''redhat-openshift-okd-release-4.2-blocking''|}"
  by (simp add: dashboardNamesOf_def Insert_def NewString_def built_dash_Name)

lemma example_List:
  "List (Insert {|''redhat-openshift-ocp-release-4.3-blocking'', ''redhat-openshift-okd-release-4.2-informing'',
       ''redhat-openshift-okd-release-4.2-blocking''|}
       [''redhat-openshift-release-4.1-informing'', ''redhat-openshift-ocp-release-4.3-blocking'']) =
     [''redhat-openshift-ocp-release-4.3-blocking'', ''redhat-openshift-okd-release-4.2-blocking'',
      ''redhat-openshift-okd-release-4.2-informing'', ''redhat-openshift-release-4.1-informing'']"
  by code_simp

lemma example_updateGroups:
  "updateGroups
     (dashboardNamesOf [fst (built ''okd'' ''4.2'' example_okd), snd (built ''okd'' ''4.2'' example_okd),
                        fst (built ''ocp'' ''4.3'' example_ocp)])
     (DashboardGroups example_groups) =
     [\<lparr>dg_Name = ''upstream'', DashboardNames = [''zeta'', ''alpha'', ''zeta'']\<rparr>,
      \<lparr>dg_Name = ''redhat'',
         DashboardNames =
           [''redhat-openshift-ocp-release-4.3-blocking'', ''redhat-openshift-okd-release-4.2-blocking'',
            ''redhat-openshift-okd-release-4.2-informing'', ''redhat-openshift-release-4.1-informing'']\<rparr>]"
  unfolding example_dashboardNames
  by (simp add: example_groups_def Let_def example_List)

lemma example_index_written:
  "((''testgrid'', ''groups.yaml''), GroupIndex example_index)
   \<in> set (fst (main example_options example_tree (\<lambda>file. GroupDecoded example_groups) (\<lambda>file. True)))"
  by (simp add: example_main example_updateGroups example_index_def)


subsection \<open>Product and version\<close>

text \<open>
  Claim C1: a descriptor whose mirror-to-origin image stream name is not empty is
  classified with product \<open>okd\<close> and that name as its version, and a descriptor with
  only a tag name with product \<open>ocp\<close> and the tag name as its version; the dashboards
  the descriptor contributes carry that product and version in their names.
\<close>

theorem productVersion_okd_ocp:
  "(Publish_Mirror_ImageStreamRef_Name r \<noteq> [] \<longrightarrow>
      productVersion r = Some (''okd'', Publish_Mirror_ImageStreamRef_Name r) \<and>
      (\<forall>d \<in> set (appended r).
         dash_Name (Dashboard d) = ''redhat-openshift-okd-release-'' @ Publish_Mirror_ImageStreamRef_Name r @ ''-blocking'' \<or>
         dash_Name (Dashboard d) = ''redhat-openshift-okd-release-'' @ Publish_Mirror_ImageStreamRef_Name r @ ''-informing'')) \<and>
   (Publish_Mirror_ImageStreamRef_Name r = [] \<and> Publish_Tag_TagRef_Name r \<noteq> [] \<longrightarrow>
      productVersion r = Some (''ocp'', Publish_Tag_TagRef_Name r) \<and>
      (\<forall>d \<in> set (appended r).
         dash_Name (Dashboard d) = ''redhat-openshift-ocp-release-'' @ Publish_Tag_TagRef_Name r @ ''-blocking'' \<or>
         dash_Name (Dashboard d) = ''redhat-openshift-ocp-release-'' @ Publish_Tag_TagRef_Name r @ ''-informing''))"
proof (intro conjI impI)
  assume m: "Publish_Mirror_ImageStreamRef_Name r \<noteq> []"
  then show pv: "productVersion r = Some (''okd'', Publish_Mirror_ImageStreamRef_Name r)"
    by (simp add: productVersion_def)
  show "\<forall>d \<in> set (appended r).
         dash_Name (Dashboard d) = ''redhat-openshift-okd-release-'' @ Publish_Mirror_ImageStreamRef_Name r @ ''-blocking'' \<or>
         dash_Name (Dashboard d) = ''redhat-openshift-okd-release-'' @ Publish_Mirror_ImageStreamRef_Name r @ ''-informing''"
    using appended_built [of _ r] built_dash_Name [of "''okd''" "Publish_Mirror_ImageStreamRef_Name r" r]
    by (auto simp: pv)
next
  assume t: "Publish_Mirror_ImageStreamRef_Name r = [] \<and> Publish_Tag_TagRef_Name r \<noteq> []"
  then show pv: "productVersion r = Some (''ocp'', Publish_Tag_TagRef_Name r)"
    by (simp add: productVersion_def)
  show "\<forall>d \<in> set (appended r).
         dash_Name (Dashboard d) = ''redhat-openshift-ocp-release-'' @ Publish_Tag_TagRef_Name r @ ''-blocking'' \<or>
         dash_Name (Dashboard d) = ''redhat-openshift-ocp-release-'' @ Publish_Tag_TagRef_Name r @ ''-informing''"
    using appended_built [of _ r] built_dash_Name [of "''ocp''" "Publish_Tag_TagRef_Name r" r]
    by (auto simp: pv)
qed

theorem productVersion_okd_ocp_witness:
  "Publish_Mirror_ImageStreamRef_Name example_okd \<noteq> [] \<and>
   productVersion example_okd = Some (''okd'', ''4.2'') \<and>
   map (\<lambda>d. dash_Name (Dashboard d)) (appended example_okd) =
     [''redhat-openshift-okd-release-4.2-blocking'', ''redhat-openshift-okd-release-4.2-informing''] \<and>
   Publish_Mirror_ImageStreamRef_Name example_ocp = [] \<and> Publish_Tag_TagRef_Name example_ocp \<noteq> [] \<and>
   productVersion example_ocp = Some (''ocp'', ''4.3'') \<and>
   map (\<lambda>d. dash_Name (Dashboard d)) (appended example_ocp) = [''redhat-openshift-ocp-release-4.3-blocking'']"
proof -
  have okd: "Publish_Mirror_ImageStreamRef_Name example_okd = ''4.2''"
    and ocp: "Publish_Mirror_ImageStreamRef_Name example_ocp = []" "Publish_Tag_TagRef_Name example_ocp = ''4.3''"
    by (simp_all add: example_okd_def example_ocp_def)
  have names: "map (\<lambda>d. dash_Name (Dashboard d)) (appended example_okd) =
     [''redhat-openshift-okd-release-4.2-blocking'', ''redhat-openshift-okd-release-4.2-informing'']"
    "map (\<lambda>d. dash_Name (Dashboard d)) (appended example_ocp) = [''redhat-openshift-ocp-release-4.3-blocking'']"
    by (simp_all add: example_appended built_dash_Name)
  show ?thesis
    using productVersion_okd_ocp [of example_okd] productVersion_okd_ocp [of example_ocp] names
    by (simp add: okd ocp)
qed


subsection \<open>Blocking and informing\<close>

lemma verify_job_routed:
  assumes "(key, job) \<in> set (Verify r)" and "ProwJob_Name job \<noteq> excludedJob"
  shows "Optional job \<Longrightarrow> ProwJob_Name job \<in> set (groupNames (snd (built product version r)))"
    and "\<not> Optional job \<Longrightarrow> ProwJob_Name job \<in> set (groupNames (fst (built product version r)))"
  using assms by (auto simp: built_names set_routed)

text \<open>
  Claim C3, as amended: a job of the verify map whose name is not the excluded one, and
  which no entry of the map lists under the same name with the other optional flag, is in
  exactly one of the two dashboards built for the descriptor, as a test group and as a
  tab: in the informing dashboard if it is optional, in the blocking one if it is not.
\<close>

theorem verify_job_in_one_dashboard:
  assumes "(key, job) \<in> set (Verify r)"
    and "ProwJob_Name job \<noteq> excludedJob"
    and "\<forall>(key', job') \<in> set (Verify r). ProwJob_Name job' = ProwJob_Name job \<longrightarrow> Optional job' = Optional job"
  shows "(ProwJob_Name job \<in> set (groupNames (snd (built product version r))) \<longleftrightarrow> Optional job) \<and>
         (ProwJob_Name job \<in> set (tabNames (snd (built product version r))) \<longleftrightarrow> Optional job) \<and>
         (ProwJob_Name job \<in> set (groupNames (fst (built product version r))) \<longleftrightarrow> \<not> Optional job) \<and>
         (ProwJob_Name job \<in> set (tabNames (fst (built product version r))) \<longleftrightarrow> \<not> Optional job)"
proof -
  have "ProwJob_Name job \<in> set (routed optional (Verify r)) \<longleftrightarrow> Optional job = optional" for optional
    using assms by (auto simp: set_routed)
  then show ?thesis
    by (simp add: built_names)
qed

theorem verify_job_in_one_dashboard_witness:
  "(''gcp'', \<lparr>Optional = True, ProwJob_Name = ''e2e-gcp''\<rparr>) \<in> set (Verify example_okd) \<and>
   ''e2e-gcp'' \<noteq> excludedJob \<and>
   map (\<lambda>(key, job). (ProwJob_Name job, Optional job)) (Verify example_okd) =
     [(excludedJob, False), (''e2e-aws'', False), (''e2e-aws'', True), (''e2e-gcp'', True)] \<and>
   ''e2e-gcp'' \<in> set (groupNames (snd (built ''okd'' ''4.2'' example_okd))) \<and>
   ''e2e-gcp'' \<in> set (tabNames (snd (built ''okd'' ''4.2'' example_okd))) \<and>
   ''e2e-gcp'' \<notin> set (groupNames (fst (built ''okd'' ''4.2'' example_okd))) \<and>
   ''e2e-gcp'' \<notin> set (tabNames (fst (built ''okd'' ''4.2'' example_okd)))"
proof -
  have 1: "(''gcp'', \<lparr>Optional = True, ProwJob_Name = ''e2e-gcp''\<rparr>) \<in> set (Verify example_okd)"
    by (simp add: example_okd_def)
  have 2: "ProwJob_Name \<lparr>Optional = True, ProwJob_Name = ''e2e-gcp''\<rparr> \<noteq> excludedJob"
    by simp
  have 3: "\<forall>(key', job') \<in> set (Verify example_okd).
     ProwJob_Name job' = ProwJob_Name \<lparr>Optional = True, ProwJob_Name = ''e2e-gcp''\<rparr> \<longrightarrow>
     Optional job' = Optional \<lparr>Optional = True, ProwJob_Name = ''e2e-gcp''\<rparr>"
    by (simp add: example_okd_def)
  have 4: "map (\<lambda>(key, job). (ProwJob_Name job, Optional job)) (Verify example_okd) =
     [(excludedJob, False), (''e2e-aws'', False), (''e2e-aws'', True), (''e2e-gcp'', True)]"
    by (simp add: example_okd_def)
  show ?thesis
    using 1 4 verify_job_in_one_dashboard [OF 1 2 3, of "''okd''" "''4.2''"] by simp
qed

text \<open>
  The claim as first stated, that every job of the verify map is in exactly one of the two
  dashboards, fails for the excluded job, which is in neither, and for a job name that
  the map lists once as optional and once not, which is in both.
\<close>

theorem verify_job_partition_counterexample:
  "(''upgrade'', \<lparr>Optional = False, ProwJob_Name = excludedJob\<rparr>) \<in> set (Verify example_okd) \<and>
   excludedJob \<notin> set (groupNames (fst (built ''okd'' ''4.2'' example_okd))) \<and>
   excludedJob \<notin> set (groupNames (snd (built ''okd'' ''4.2'' example_okd))) \<and>
   (''aws'', \<lparr>Optional = False, ProwJob_Name = ''e2e-aws''\<rparr>) \<in> set (Verify example_okd) \<and>
   ''e2e-aws'' \<in> set (groupNames (fst (built ''okd'' ''4.2'' example_okd))) \<and>
   ''e2e-aws'' \<in> set (groupNames (snd (built ''okd'' ''4.2'' example_okd)))"
  by (simp add: built_names example_routed) (simp add: example_okd_def)


subsection \<open>The excluded job\<close>

text \<open>
  Claim C7: the excluded job name is the name of no test group and of no tab, and the
  test group of no tab, in any dashboard document that \<open>main\<close> writes.
\<close>

theorem excluded_job_never_generated:
  assumes "(file, DashboardConfig cfg) \<in> set (fst (main o' tree readGroups writable))"
  shows "excludedJob \<notin> tg_Name ` set (TestGroups cfg) \<and>
         (\<forall>d \<in> set (Dashboards cfg).
            excludedJob \<notin> tab_Name ` set (DashboardTab d) \<and>
            excludedJob \<notin> TestGroupName ` set (DashboardTab d))"
proof -
  from main_DashboardConfig_built [OF assms] obtain r product version optional
    where "r \<in> set (descriptors (tree (releaseConfigDir o')))"
      and "productVersion r = Some (product, version)"
      and "routed optional (Verify r) \<noteq> []"
      and cfg: "cfg = partialConfigFor
                   (foldl add (dashboardFor product version (if optional then ''informing'' else ''blocking''))
                      (routed optional (Verify r)))"
    by blast
  have "excludedJob \<notin> set (routed optional (Verify r))"
    by (rule excluded_not_routed)
  then show ?thesis
    unfolding cfg partialConfigFor_foldl_add
    by (simp add: names_of_groups_tabs del: set_map)
qed

theorem excluded_job_never_generated_witness:
  "(''upgrade'', \<lparr>Optional = False, ProwJob_Name = excludedJob\<rparr>) \<in> set (Verify example_okd) \<and>
   ((''testgrid'', ''redhat-openshift-okd-release-4.2-blocking.yaml''),
    DashboardConfig (partialConfigFor (fst (built ''okd'' ''4.2'' example_okd))))
     \<in> set (fst (main example_options example_tree (\<lambda>file. GroupDecoded example_groups) (\<lambda>file. True))) \<and>
   excludedJob \<notin> tg_Name ` set (TestGroups (partialConfigFor (fst (built ''okd'' ''4.2'' example_okd)))) \<and>
   excludedJob \<notin> set (concat (map (\<lambda>d. map tab_Name (DashboardTab d))
                     (Dashboards (partialConfigFor (fst (built ''okd'' ''4.2'' example_okd)))))) \<and>
   excludedJob \<notin> set (concat (map (\<lambda>d. map TestGroupName (DashboardTab d))
                     (Dashboards (partialConfigFor (fst (built ''okd'' ''4.2'' example_okd))))))"
proof -
  have "(''upgrade'', \<lparr>Optional = False, ProwJob_Name = excludedJob\<rparr>) \<in> set (Verify example_okd)"
    by (simp add: example_okd_def)
  then show ?thesis
    using example_written(2) excluded_job_never_generated [OF example_written(2)] by auto
qed


subsection \<open>Sorted documents\<close>

text \<open>
  The test groups and the tabs of a dashboard are determined by their names, so there is
  one way only to put them in the order of their names: the result of \<open>sort.Slice\<close>
  does not depend on how it orders equal names.
\<close>

lemma sortSlice_unique:
  assumes "mset ys = mset xs" and "sorted (map name ys)" and "inj_on name (set xs)"
  shows "ys = sortSlice name xs"
  unfolding sortSlice_def
  by (rule sort_key_inj_key_eq [symmetric]) (simp_all add: assms)

lemma inj_on_names:
  "inj_on tg_Name (set (map testGroupFor names))"
  "inj_on tab_Name (set (map dashboardTabFor names))"
  by (auto simp: inj_on_def testGroupFor_def dashboardTabFor_def)

lemma sortSlice_testGroups:
  "mset ys = mset (testGroups (foldl add (dashboardFor product version role) names)) \<Longrightarrow>
   sorted (map tg_Name ys) \<Longrightarrow>
   ys = sortSlice tg_Name (testGroups (foldl add (dashboardFor product version role) names))"
  by (rule sortSlice_unique) (simp_all add: foldl_add dashboardFor_def inj_on_names del: set_map)

lemma sortSlice_tabs:
  "mset ys = mset (DashboardTab (Dashboard (foldl add (dashboardFor product version role) names))) \<Longrightarrow>
   sorted (map tab_Name ys) \<Longrightarrow>
   ys = sortSlice tab_Name (DashboardTab (Dashboard (foldl add (dashboardFor product version role) names)))"
  by (rule sortSlice_unique) (simp_all add: foldl_add dashboardFor_def inj_on_names del: set_map)




subsection \<open>Dashboards without jobs\<close>

text \<open>
  Claim C9: the blocking and the informing dashboard built for a descriptor are each
  appended to the dashboards of the run exactly when they have a test group, that is when
  the verify map has a job, other than the excluded one, with the optional flag of that
  role; and a run that ends without error writes one document for each appended dashboard
  and no other, and no run writes a dashboard document without test groups: a dashboard
  without jobs has no file.
\<close>

theorem dashboard_persisted_iff_jobs:
  assumes "productVersion r = Some (product, version)"
    and "d = fst (built product version r) \<or> d = snd (built product version r)"
  shows "(d \<in> set (appended r) \<longleftrightarrow> testGroups d \<noteq> []) \<and>
         (testGroups d \<noteq> [] \<longleftrightarrow>
            (\<exists>key job. (key, job) \<in> set (Verify r) \<and> ProwJob_Name job \<noteq> excludedJob \<and>
               Optional job = (d = snd (built product version r)))) \<and>
         (snd (main o' tree readGroups writable) = None \<longrightarrow>
            map snd (tl (fst (main o' tree readGroups writable))) =
              map (\<lambda>dash. DashboardConfig (partialConfigFor dash))
                (concat (map appended (descriptors (tree (releaseConfigDir o')))))) \<and>
         ((file, DashboardConfig cfg) \<in> set (fst (main o' tree readGroups writable)) \<longrightarrow>
            TestGroups cfg \<noteq> [])"
proof (intro conjI impI)
  show "d \<in> set (appended r) \<longleftrightarrow> testGroups d \<noteq> []"
    using assms(2) built_fst_neq_snd [of product version r]
    by (auto simp: appended_cases(2) [OF assms(1)])
  have "testGroups d = map testGroupFor (routed (d = snd (built product version r)) (Verify r))"
    using assms(2) built_fst_neq_snd [of product version r] by (auto simp: testGroups_built)
  then have "testGroups d \<noteq> [] \<longleftrightarrow> set (routed (d = snd (built product version r)) (Verify r)) \<noteq> {}"
    by simp
  then show "testGroups d \<noteq> [] \<longleftrightarrow>
            (\<exists>key job. (key, job) \<in> set (Verify r) \<and> ProwJob_Name job \<noteq> excludedJob \<and>
               Optional job = (d = snd (built product version r)))"
    unfolding set_routed by blast
next
  assume "snd (main o' tree readGroups writable) = None"
  from main_None [OF this] show "map snd (tl (fst (main o' tree readGroups writable))) =
              map (\<lambda>dash. DashboardConfig (partialConfigFor dash))
                (concat (map appended (descriptors (tree (releaseConfigDir o')))))"
    by (auto simp: comp_def)
next
  assume "(file, DashboardConfig cfg) \<in> set (fst (main o' tree readGroups writable))"
  from main_DashboardConfig_built [OF this] obtain r' product' version' optional
    where "r' \<in> set (descriptors (tree (releaseConfigDir o')))"
      and "productVersion r' = Some (product', version')"
      and "routed optional (Verify r') \<noteq> []"
      and cfg: "cfg = partialConfigFor
                   (foldl add (dashboardFor product' version' (if optional then ''informing'' else ''blocking''))
                      (routed optional (Verify r')))"
    by blast
  then have "set (TestGroups cfg) \<noteq> {}"
    unfolding cfg partialConfigFor_foldl_add by simp
  then show "TestGroups cfg \<noteq> []"
    by auto
qed

theorem dashboard_persisted_iff_jobs_witness:
  "productVersion example_ocp = Some (''ocp'', ''4.3'') \<and>
   testGroups (fst (built ''ocp'' ''4.3'' example_ocp)) \<noteq> [] \<and>
   fst (built ''ocp'' ''4.3'' example_ocp) \<in> set (appended example_ocp) \<and>
   testGroups (snd (built ''ocp'' ''4.3'' example_ocp)) = [] \<and>
   snd (built ''ocp'' ''4.3'' example_ocp) \<notin> set (appended example_ocp) \<and>
   snd (main example_options example_tree (\<lambda>file. GroupDecoded example_groups) (\<lambda>file. True)) = None \<and>
   map snd (tl (fst (main example_options example_tree (\<lambda>file. GroupDecoded example_groups) (\<lambda>file. True)))) =
     map (\<lambda>dash. DashboardConfig (partialConfigFor dash))
       (concat (map appended (descriptors (example_tree (releaseConfigDir example_options)))))"
proof -
  have pv: "productVersion example_ocp = Some (''ocp'', ''4.3'')"
    by (rule example_productVersion(2))
  have tg: "testGroups (fst (built ''ocp'' ''4.3'' example_ocp)) \<noteq> []"
    "testGroups (snd (built ''ocp'' ''4.3'' example_ocp)) = []"
    by (simp_all add: testGroups_built example_routed)
  have ok: "snd (main example_options example_tree (\<lambda>file. GroupDecoded example_groups) (\<lambda>file. True)) = None"
    by (simp add: example_main)
  show ?thesis
    using pv tg ok
      dashboard_persisted_iff_jobs [OF pv, of "fst (built ''ocp'' ''4.3'' example_ocp)"
        example_options example_tree "\<lambda>file. GroupDecoded example_groups" "\<lambda>file. True"]
      dashboard_persisted_iff_jobs [OF pv, of "snd (built ''ocp'' ''4.3'' example_ocp)"
        example_options example_tree "\<lambda>file. GroupDecoded example_groups" "\<lambda>file. True"]
    by simp
qed


subsection \<open>The group index after a run\<close>

text \<open>
  The loop over the groups keeps their number and order, changes the dashboard names of
  the groups named \<open>redhat\<close> only, and gives such a group the sorted list of the derived
  names, its own names and the names of the groups named \<open>redhat\<close> before it.
\<close>

lemma length_updateGroups: "length (updateGroups names gs) = length gs"
  by (induction gs arbitrary: names) (simp_all add: Let_def)

lemma updateGroups_nth_frame:
  "i < length gs \<Longrightarrow>
   updateGroups names gs ! i = (gs ! i)\<lparr>DashboardNames := DashboardNames (updateGroups names gs ! i)\<rparr> \<and>
   (dg_Name (gs ! i) \<noteq> ''redhat'' \<longrightarrow> updateGroups names gs ! i = gs ! i)"
proof (induction gs arbitrary: names i)
  case Nil
  then show ?case by simp
next
  case (Cons g gs)
  show ?case
  proof (cases i)
    case 0
    then show ?thesis by (simp add: Let_def)
  next
    case (Suc j)
    with Cons.prems have "j < length gs" by simp
    from Cons.IH [OF this] show ?thesis
      by (simp add: Suc Let_def)
  qed
qed

lemma updateGroups_nth_redhat:
  "i < length gs \<Longrightarrow> dg_Name (gs ! i) = ''redhat'' \<Longrightarrow>
   DashboardNames (updateGroups names gs ! i) =
     List (names |\<union>| fset_of_list (concat (map DashboardNames (filter (\<lambda>g. dg_Name g = ''redhat'') (take (Suc i) gs)))))"
proof (induction gs arbitrary: names i)
  case Nil
  then show ?case by simp
next
  case (Cons g gs)
  show ?case
  proof (cases i)
    case 0
    with Cons.prems show ?thesis by (simp add: Let_def Insert_union)
  next
    case (Suc j)
    with Cons.prems have j: "j < length gs" "dg_Name (gs ! j) = ''redhat''" by simp_all
    show ?thesis
      using Cons.IH [OF j] by (simp add: Suc Let_def Insert_union funion_assoc)
  qed
qed

lemma updateGroups_first_redhat:
  assumes "i < length gs" and "dg_Name (gs ! i) = ''redhat''"
    and "\<forall>j < i. dg_Name (gs ! j) \<noteq> ''redhat''"
  shows "DashboardNames (updateGroups names gs ! i) = List (names |\<union>| fset_of_list (DashboardNames (gs ! i)))"
proof -
  have "filter (\<lambda>g. dg_Name g = ''redhat'') (take i gs) = []"
    using assms(1,3) by (auto simp: filter_empty_conv in_set_conv_nth)
  then have "filter (\<lambda>g. dg_Name g = ''redhat'') (take (Suc i) gs) = [gs ! i]"
    using assms(1,2) by (simp add: take_Suc_conv_app_nth)
  with updateGroups_nth_redhat [OF assms(1,2)] show ?thesis by simp
qed

lemma fset_dashboardNamesOf_aux:
  "fset (fold (\<lambda>dash dashboardNames. Insert dashboardNames [dash_Name (Dashboard dash)]) dashboards names) =
     fset names \<union> (\<lambda>dash. dash_Name (Dashboard dash)) ` set dashboards"
  by (induction dashboards arbitrary: names) (auto simp: Insert_def)

lemma fset_dashboardNamesOf:
  "fset (dashboardNamesOf dashboards) = (\<lambda>dash. dash_Name (Dashboard dash)) ` set dashboards"
  by (simp add: dashboardNamesOf_def fset_dashboardNamesOf_aux NewString_def)

text \<open>
  Claim C4, as amended: the group index that \<open>main\<close> encodes and writes is the index
  it decoded, with the same groups in the same order; a group whose name is not
  \<open>redhat\<close> is the group that was decoded, a group named \<open>redhat\<close> differs from the
  one decoded in its list of dashboard names at most, and every other field of the decoded
  index is as it was decoded.
\<close>

theorem other_groups_unchanged:
  assumes "(file, GroupIndex groups') \<in> set (fst (main o' tree readGroups writable))"
  shows "\<exists>groups. readGroups (testGridConfigDir o', ''groups.yaml'') = GroupDecoded groups \<and>
           file = (testGridConfigDir o', ''groups.yaml'') \<and>
           groups' = groups\<lparr>DashboardGroups := DashboardGroups groups'\<rparr> \<and>
           length (DashboardGroups groups') = length (DashboardGroups groups) \<and>
           (\<forall>i < length (DashboardGroups groups).
              DashboardGroups groups' ! i =
                (DashboardGroups groups ! i)\<lparr>DashboardNames := DashboardNames (DashboardGroups groups' ! i)\<rparr> \<and>
              (dg_Name (DashboardGroups groups ! i) \<noteq> ''redhat'' \<longrightarrow>
                 DashboardGroups groups' ! i = DashboardGroups groups ! i))"
proof -
  from main_GroupIndex [OF assms] obtain dashboards groups
    where g: "readGroups (testGridConfigDir o', ''groups.yaml'') = GroupDecoded groups"
      and f: "file = (testGridConfigDir o', ''groups.yaml'')"
      and g': "groups' = groups\<lparr>DashboardGroups := updateGroups (dashboardNamesOf dashboards) (DashboardGroups groups)\<rparr>"
    by blast
  have dg: "DashboardGroups groups' = updateGroups (dashboardNamesOf dashboards) (DashboardGroups groups)"
    by (simp add: g')
  have 1: "groups' = groups\<lparr>DashboardGroups := DashboardGroups groups'\<rparr>"
    by (simp add: g')
  have 2: "length (DashboardGroups groups') = length (DashboardGroups groups)"
    by (simp add: dg length_updateGroups)
  have 3: "\<forall>i < length (DashboardGroups groups).
              DashboardGroups groups' ! i =
                (DashboardGroups groups ! i)\<lparr>DashboardNames := DashboardNames (DashboardGroups groups' ! i)\<rparr> \<and>
              (dg_Name (DashboardGroups groups ! i) \<noteq> ''redhat'' \<longrightarrow>
                 DashboardGroups groups' ! i = DashboardGroups groups ! i)"
    unfolding dg using updateGroups_nth_frame by blast
  from g f 1 2 3 show ?thesis by blast
qed

theorem other_groups_unchanged_witness:
  "((''testgrid'', ''groups.yaml''), GroupIndex example_index)
     \<in> set (fst (main example_options example_tree (\<lambda>file. GroupDecoded example_groups) (\<lambda>file. True))) \<and>
   dg_Name (DashboardGroups example_groups ! 0) \<noteq> ''redhat'' \<and>
   DashboardGroups example_groups ! 0 = \<lparr>dg_Name = ''upstream'', DashboardNames = [''zeta'', ''alpha'', ''zeta'']\<rparr> \<and>
   DashboardGroups example_index ! 0 = DashboardGroups example_groups ! 0 \<and>
   length (DashboardGroups example_index) = length (DashboardGroups example_groups) \<and>
   example_index = example_groups\<lparr>DashboardGroups := DashboardGroups example_index\<rparr>"
proof -
  have g: "0 < length (DashboardGroups example_groups)"
    "dg_Name (DashboardGroups example_groups ! 0) \<noteq> ''redhat''"
    "DashboardGroups example_groups ! 0 = \<lparr>dg_Name = ''upstream'', DashboardNames = [''zeta'', ''alpha'', ''zeta'']\<rparr>"
    by (simp_all add: example_groups_def)
  from other_groups_unchanged [OF example_index_written]
  have "example_index = example_groups\<lparr>DashboardGroups := DashboardGroups example_index\<rparr> \<and>
        length (DashboardGroups example_index) = length (DashboardGroups example_groups) \<and>
        (\<forall>i < length (DashboardGroups example_groups).
           dg_Name (DashboardGroups example_groups ! i) \<noteq> ''redhat'' \<longrightarrow>
           DashboardGroups example_index ! i = DashboardGroups example_groups ! i)"
    by auto
  with g example_index_written show ?thesis
    by blast
qed

text \<open>
  The bytes of the index after a run are the encoding of the decoded index as the loop
  leaves it; for an index without a group named \<open>redhat\<close>, of the decoded index itself.
\<close>

lemma main_rewriteGroups:
  assumes "(file, GroupIndex groups') \<in> set (fst (main o' tree readGroups writable))"
    and "readGroups (testGridConfigDir o', ''groups.yaml'') =
           (case Unmarshal data of None \<Rightarrow> GroupUnmarshalFails | Some groups \<Rightarrow> GroupDecoded groups)"
    and "Walk (tree (releaseConfigDir o')) [] = Inr dashboards"
  shows "rewriteGroups Unmarshal Marshal dashboards data = Some (Marshal groups')"
  using main_GroupIndex [OF assms(1)] assms(2,3)
  by (auto simp: rewriteGroups_def split: option.splits)

lemma updateGroups_no_redhat:
  "list_all (\<lambda>g. dg_Name g \<noteq> ''redhat'') gs \<Longrightarrow> updateGroups names gs = gs"
  by (induction gs arbitrary: names) simp_all

lemma rewriteGroups_no_redhat:
  "Unmarshal data = Some groups \<Longrightarrow> list_all (\<lambda>g. dg_Name g \<noteq> ''redhat'') (DashboardGroups groups) \<Longrightarrow>
   rewriteGroups Unmarshal Marshal dashboards data = Some (Marshal groups)"
  by (simp add: rewriteGroups_def updateGroups_no_redhat)

text \<open>
  The claim as first stated, that the groups other than \<open>redhat\<close> and all other fields
  are unchanged byte for byte in the file, fails: the bytes written are the encoding of the
  decoded index, so whatever the decoder does not keep is not written back. The two
  example files differ in a comment on the group \<open>upstream\<close>; no decoder that reads
  both as the index they describe, which has no group named \<open>redhat\<close>, and no encoder
  lets a run leave both files as they were.
\<close>

theorem other_groups_bytes_counterexample:
  "list_all (\<lambda>g. dg_Name g \<noteq> ''redhat'') (DashboardGroups example_upstream) \<and>
   example_file \<noteq> example_file_comment \<and>
   \<not> (\<exists>Unmarshal Marshal dashboards.
         Unmarshal example_file = Some example_upstream \<and>
         Unmarshal example_file_comment = Some example_upstream \<and>
         rewriteGroups Unmarshal Marshal dashboards example_file = Some example_file \<and>
         rewriteGroups Unmarshal Marshal dashboards example_file_comment = Some example_file_comment)"
proof -
  have ne: "example_file \<noteq> example_file_comment"
    by (simp add: example_file_def example_file_comment_def)
  have "example_file = example_file_comment"
    if "Unmarshal example_file = Some example_upstream"
      and "Unmarshal example_file_comment = Some example_upstream"
      and "rewriteGroups Unmarshal Marshal dashboards example_file = Some example_file"
      and "rewriteGroups Unmarshal Marshal dashboards example_file_comment = Some example_file_comment"
    for dashboards
      and Unmarshal :: "string \<Rightarrow> (unit, unit, DashboardGroup) Configuration option"
      and Marshal :: "(unit, unit, DashboardGroup) Configuration \<Rightarrow> string"
    using that by (simp add: rewriteGroups_def)
  with ne show ?thesis
    by (auto simp: example_upstream_def)
qed

text \<open>
  Claim C5: in the group index that \<open>main\<close> writes, the list of dashboard names of the
  group named \<open>redhat\<close> (the first one, should the index have several) is sorted, has no
  duplicates, and holds exactly the names the group had before and the names of the
  dashboards derived in the run.
\<close>

theorem redhat_membership_union:
  assumes "(file, GroupIndex groups') \<in> set (fst (main o' tree readGroups writable))"
    and "readGroups (testGridConfigDir o', ''groups.yaml'') = GroupDecoded groups"
    and "Walk (tree (releaseConfigDir o')) [] = Inr dashboards"
    and "i < length (DashboardGroups groups)"
    and "dg_Name (DashboardGroups groups ! i) = ''redhat''"
    and "\<forall>j < i. dg_Name (DashboardGroups groups ! j) \<noteq> ''redhat''"
  shows "sorted (DashboardNames (DashboardGroups groups' ! i)) \<and>
         distinct (DashboardNames (DashboardGroups groups' ! i)) \<and>
         set (DashboardNames (DashboardGroups groups' ! i)) =
           set (DashboardNames (DashboardGroups groups ! i)) \<union>
           (\<lambda>dash. dash_Name (Dashboard dash)) ` set dashboards"
proof -
  from main_GroupIndex [OF assms(1)] assms(2,3)
  have "groups' = groups\<lparr>DashboardGroups := updateGroups (dashboardNamesOf dashboards) (DashboardGroups groups)\<rparr>"
    by auto
  then have "DashboardNames (DashboardGroups groups' ! i) =
     List (dashboardNamesOf dashboards |\<union>| fset_of_list (DashboardNames (DashboardGroups groups ! i)))"
    using updateGroups_first_redhat [OF assms(4,5,6)] by simp
  then show ?thesis
    by (auto simp: List_props fset_dashboardNamesOf fset_of_list.rep_eq)
qed

theorem redhat_membership_union_witness:
  "((''testgrid'', ''groups.yaml''), GroupIndex example_index)
     \<in> set (fst (main example_options example_tree (\<lambda>file. GroupDecoded example_groups) (\<lambda>file. True))) \<and>
   Walk (example_tree (releaseConfigDir example_options)) [] =
     Inr [fst (built ''okd'' ''4.2'' example_okd), snd (built ''okd'' ''4.2'' example_okd),
          fst (built ''ocp'' ''4.3'' example_ocp)] \<and>
   dg_Name (DashboardGroups example_groups ! 0) \<noteq> ''redhat'' \<and>
   dg_Name (DashboardGroups example_groups ! 1) = ''redhat'' \<and>
   DashboardNames (DashboardGroups example_groups ! 1) =
     [''redhat-openshift-release-4.1-informing'', ''redhat-openshift-ocp-release-4.3-blocking''] \<and>
   DashboardNames (DashboardGroups example_index ! 1) =
     [''redhat-openshift-ocp-release-4.3-blocking'', ''redhat-openshift-okd-release-4.2-blocking'',
      ''redhat-openshift-okd-release-4.2-informing'', ''redhat-openshift-release-4.1-informing''] \<and>
   sorted (DashboardNames (DashboardGroups example_index ! 1)) \<and>
   distinct (DashboardNames (DashboardGroups example_index ! 1)) \<and>
   set (DashboardNames (DashboardGroups example_index ! 1)) =
     set (DashboardNames (DashboardGroups example_groups ! 1)) \<union>
     (\<lambda>dash. dash_Name (Dashboard dash)) `
       set [fst (built ''okd'' ''4.2'' example_okd), snd (built ''okd'' ''4.2'' example_okd),
            fst (built ''ocp'' ''4.3'' example_ocp)]"
proof -
  have w: "Walk (example_tree (releaseConfigDir example_options)) [] =
     Inr [fst (built ''okd'' ''4.2'' example_okd), snd (built ''okd'' ''4.2'' example_okd),
          fst (built ''ocp'' ''4.3'' example_ocp)]"
    using example_Walk by (simp add: example_options_def)
  have g: "(\<lambda>file. GroupDecoded example_groups) (testGridConfigDir example_options, ''groups.yaml'') =
     GroupDecoded example_groups"
    by simp
  have i: "1 < length (DashboardGroups example_groups)"
    and n: "dg_Name (DashboardGroups example_groups ! 1) = ''redhat''"
    and f: "\<forall>j < 1. dg_Name (DashboardGroups example_groups ! j) \<noteq> ''redhat''"
    and z: "dg_Name (DashboardGroups example_groups ! 0) \<noteq> ''redhat''"
    and pre: "DashboardNames (DashboardGroups example_groups ! 1) =
     [''redhat-openshift-release-4.1-informing'', ''redhat-openshift-ocp-release-4.3-blocking'']"
    by (simp_all add: example_groups_def)
  have post: "DashboardNames (DashboardGroups example_index ! 1) =
     [''redhat-openshift-ocp-release-4.3-blocking'', ''redhat-openshift-okd-release-4.2-blocking'',
      ''redhat-openshift-okd-release-4.2-informing'', ''redhat-openshift-release-4.1-informing'']"
    by (simp add: example_index_def)
  show ?thesis
    using example_index_written w n z pre post
      redhat_membership_union [OF example_index_written g w i n f]
    by blast
qed

end
